theory Spec2Isabelle
  imports Main
begin

section \<open>The Person entity of cascade.py and its derived accessors\<close>

text \<open>
  The program declares an object-relational schema (Species, Breed, Trait, Shelter, Pet,
  Person, PetPersonAssociation, PetNicknames) and gives the class Person code of its
  own: the property \<open>phone\<close> with its getter and setter, the property \<open>full_name\<close>
  and the method \<open>has_pet\<close>. The attribute \<open>pets\<close> of a Person is the collection
  that the relationship \<open>Pet.people\<close> installs by its backref. They are embedded here as
  functions on records. A raised exception is a value of \<open>py_error\<close>.
\<close>

subsection \<open>Exceptions\<close>

datatype py_error =
    Exception string
  | TypeError
  | AttributeError

subsection \<open>Entities\<close>

text \<open>
  A column declared \<open>nullable=False\<close> is a plain value, any other column is an option
  (\<open>None\<close> is Python's None). The field \<open>oid\<close> of a pet is the identity of the Python
  object: Pet defines no \<open>__eq__\<close>, so \<open>==\<close> on two pets compares identities.
\<close>

record pet =
  oid :: nat
  pet_ident :: "int option"
  pet_name :: string
  pet_age :: "int option"
  adopted :: "bool option"
  breed_id :: int
  shelter_id :: "int option"
  parent_id :: "int option"

text \<open>
  A row of PetPersonAssociation with its columns and the related pet object
  (the relationship \<open>pet\<close> of line 204).
\<close>

record pet_person_association =
  assoc_ident :: "int option"
  pet_id :: int
  person_id :: int
  years :: "int option"
  pet :: pet

text \<open>
  A Person: the columns of lines 134 to 138 (\<open>phone_priv\<close> is the column \<open>_phone\<close>) and
  the two collections that relationships of other classes install on Person by a backref:
  \<^item> \<open>pet_associations\<close>, the rows of PetPersonAssociation that reference the person
    (\<open>backref('pet_associations')\<close> of \<open>PetPersonAssociation.person\<close>, line 203);
  \<^item> \<open>pets_backref\<close>, the pets linked to the person by the table \<open>pet_person\<close>
    (\<open>backref='pets'\<close> of \<open>Pet.people\<close>, lines 126 and 127), which is what the
    attribute \<open>pets\<close> of a person holds.
\<close>

record person =
  ident :: "int option"
  first_name :: string
  last_name :: string
  age :: "int option"
  phone_priv :: "string option"
  pet_associations :: "pet_person_association list"
  pets_backref :: "pet list"

subsection \<open>Python string operations\<close>

text \<open>
  \<open>s.replace(old, new)\<close> for a non-empty \<open>old\<close>: scan from the left, replace each
  occurrence of \<open>old\<close> and continue behind it.
\<close>

function replace_from :: "string \<Rightarrow> string \<Rightarrow> string \<Rightarrow> string" where
  "replace_from old new s =
     (if old = [] \<or> s = [] then s
      else if take (length old) s = old
        then new @ replace_from old new (drop (length old) s)
      else hd s # replace_from old new (tl s))"
  by pat_completeness auto
termination
  by (relation "measure (\<lambda>(old, new, s). length s)") auto

declare replace_from.simps [simp del]

text \<open>\<open>s.replace(old, new)\<close>; an empty \<open>old\<close> matches before every character and at the end.\<close>

definition replace :: "string \<Rightarrow> string \<Rightarrow> string \<Rightarrow> string" where
  "replace s old new =
     (if old = [] then new @ concat (map (\<lambda>c. c # new) s)
      else replace_from old new s)"

text \<open>The slice \<open>s[i:j]\<close> for \<open>0 \<le> i \<le> j\<close>; Python clips both bounds to the length.\<close>

definition slice :: "string \<Rightarrow> nat \<Rightarrow> nat \<Rightarrow> string" where
  "slice s i j = take (j - i) (drop i s)"

subsection \<open>The property phone\<close>

text \<open>
  The getter (lines 143 to 149). Slicing None raises TypeError.
\<close>

definition phone :: "person \<Rightarrow> py_error + string" where
  "phone self =
     (case phone_priv self of
        None \<Rightarrow> Inl TypeError
      | Some num \<Rightarrow> Inr (slice num 0 3 @ ''-'' @ slice num 3 6 @ ''-'' @ slice num 6 10))"

text \<open>
  The setter (lines 152 to 164). It returns the exception raised, if any, and the
  person object as the call leaves it.
\<close>

definition phone_setter :: "person \<Rightarrow> string \<Rightarrow> py_error option \<times> person" where
  "phone_setter self v =
     (let number = replace v ''-'' '''';
          number = replace number '' '' ''''
      in if length number \<noteq> 10
         then (Some (Exception ''Phone number not 10 digits long''), self)
         else (None, self\<lparr>phone_priv := Some number\<rparr>))"

text \<open>
  A caller that assigns several values to \<open>phone\<close> in turn and catches the exception
  of each assignment that raises.
\<close>

fun setter_calls :: "person \<Rightarrow> string list \<Rightarrow> person" where
  "setter_calls self [] = self"
| "setter_calls self (v # vs) = setter_calls (snd (phone_setter self v)) vs"

text \<open>The invariant of the stored phone number.\<close>

definition phone_inv :: "person \<Rightarrow> bool" where
  "phone_inv self =
     (case phone_priv self of
        None \<Rightarrow> True
      | Some s \<Rightarrow> length s = 10 \<and> CHR ''-'' \<notin> set s \<and> CHR '' '' \<notin> set s)"

subsection \<open>The property full\_name\<close>

definition full_name :: "person \<Rightarrow> string" where
  "full_name self = first_name self @ '' '' @ last_name self"

subsection \<open>The attribute pets and the method has\_pet\<close>


text \<open>
  The attributes of a Person instance that hold rows of PetPersonAssociation. The mapper
  installs one, under the name given at line 203: \<open>pet_associations\<close>. No line of the
  program defines an attribute of another name with such rows, so reading one raises
  AttributeError.
\<close>

definition assoc_attr :: "person \<Rightarrow> string \<Rightarrow> py_error + pet_person_association list" where
  "assoc_attr self attr =
     (if attr = ''pet_associations'' then Inr (pet_associations self)
      else Inl AttributeError)"

text \<open>
  The loop of \<open>has_pet\<close> (lines 175 to 178): the years of the first row whose pet is the
  given object, None when the loop ends.
\<close>

fun has_pet_loop :: "pet_person_association list \<Rightarrow> pet \<Rightarrow> int option" where
  "has_pet_loop [] q = None"
| "has_pet_loop (assoc # rest) q =
     (if oid (pet assoc) = oid q then years assoc else has_pet_loop rest q)"

text \<open>The method \<open>has_pet\<close> (lines 174 to 178): the loop runs over \<open>self.pet_assocs\<close>.\<close>

definition has_pet :: "person \<Rightarrow> pet \<Rightarrow> py_error + int option" where
  "has_pet self q =
     (case assoc_attr self ''pet_assocs'' of
        Inl e \<Rightarrow> Inl e
      | Inr assocs \<Rightarrow> Inr (has_pet_loop assocs q))"

subsection \<open>Objects of the demonstration script\<close>

text \<open>Tom as line 266 constructs him, before the assignment to \<open>phone\<close>.\<close>

definition tom :: person where
  "tom = \<lparr>ident = None, first_name = ''Tom'', last_name = ''Smith'', age = Some 52,
          phone_priv = None, pet_associations = [], pets_backref = []\<rparr>"

text \<open>Duke (line 360) and Sonya (line 368), with breed keys as a commit would assign them.\<close>

definition duke :: pet where
  "duke = \<lparr>oid = 1, pet_ident = Some 3, pet_name = ''Duke'', pet_age = Some 5,
           adopted = Some True, breed_id = 3, shelter_id = Some 2, parent_id = None\<rparr>"

definition sonya :: pet where
  "sonya = \<lparr>oid = 2, pet_ident = Some 4, pet_name = ''Sonya'', pet_age = Some 7,
            adopted = Some True, breed_id = 4, shelter_id = None, parent_id = None\<rparr>"

text \<open>
  Gary (line 350), whom line 365 puts among the people of Duke, with one association row:
  Duke, for three years.
\<close>

definition gary :: person where
  "gary = \<lparr>ident = Some 3, first_name = ''Gary'', last_name = ''Jones'', age = Some 52,
           phone_priv = Some ''5551235555'',
           pet_associations =
             [\<lparr>assoc_ident = Some 1, pet_id = 3, person_id = 3, years = Some 3, pet = duke\<rparr>],
           pets_backref = [duke]\<rparr>"


section \<open>Properties\<close>

subsection \<open>String operations\<close>

lemma replace_from_single:
  "replace_from [c] [] s = filter (\<lambda>x. x \<noteq> c) s"
proof (induction s)
  case Nil
  show ?case by (simp add: replace_from.simps)
next
  case (Cons a s)
  show ?case
    by (subst replace_from.simps) (simp add: Cons.IH)
qed

lemma replace_single: "replace s [c] [] = filter (\<lambda>x. x \<noteq> c) s"
  by (simp add: replace_def replace_from_single)

lemma filter_seps:
  "filter (\<lambda>c. c \<noteq> CHR '' '') (filter (\<lambda>c. c \<noteq> CHR ''-'') v) =
   filter (\<lambda>c. c \<notin> {CHR ''-'', CHR '' ''}) v"
  by (induction v) auto

lemma ten_chars:
  "length (num :: string) = 10 \<Longrightarrow>
   \<exists>d0 d1 d2 d3 d4 d5 d6 d7 d8 d9. num = [d0, d1, d2, d3, d4, d5, d6, d7, d8, d9]"
  by (auto simp: eval_nat_numeral length_Suc_conv)

subsection \<open>The setter of phone\<close>

lemma phone_setter_filter:
  "phone_setter self v =
     (if length (filter (\<lambda>c. c \<noteq> CHR '' '') (filter (\<lambda>c. c \<noteq> CHR ''-'') v)) \<noteq> 10
      then (Some (Exception ''Phone number not 10 digits long''), self)
      else (None, self\<lparr>phone_priv :=
              Some (filter (\<lambda>c. c \<noteq> CHR '' '') (filter (\<lambda>c. c \<noteq> CHR ''-'') v))\<rparr>))"
  by (simp add: phone_setter_def replace_single Let_def)

text \<open>
  C1. For every input string the setter removes all hyphens, then all spaces; when exactly
  10 characters remain, it stores them unchanged as the internal value and raises nothing.
  No other character is rejected: the statement holds for every string, and only the
  length of what remains is tested.
\<close>

theorem phone_setter_stores:
  "length (filter (\<lambda>c. c \<noteq> CHR '' '') (filter (\<lambda>c. c \<noteq> CHR ''-'') v)) = 10 \<Longrightarrow>
   phone_setter self v =
     (None, self\<lparr>phone_priv :=
        Some (filter (\<lambda>c. c \<noteq> CHR '' '') (filter (\<lambda>c. c \<noteq> CHR ''-'') v))\<rparr>)"
  by (simp add: phone_setter_filter)

theorem phone_setter_stores_witness:
  "length (filter (\<lambda>c. c \<noteq> CHR '' '') (filter (\<lambda>c. c \<noteq> CHR ''-'') ''abc-def ghi!'')) = 10 \<and>
   phone_setter tom ''abc-def ghi!'' = (None, tom\<lparr>phone_priv := Some ''abcdefghi!''\<rparr>)"
  using phone_setter_stores [of "''abc-def ghi!''" tom] by simp

text \<open>
  C2. For every input string with other than 10 characters left after the hyphens and
  spaces are removed, the setter raises the exception and leaves the person object, and so
  the stored phone value, as it was.
\<close>

theorem phone_setter_rejects:
  "length (filter (\<lambda>c. c \<noteq> CHR '' '') (filter (\<lambda>c. c \<noteq> CHR ''-'') v)) \<noteq> 10 \<Longrightarrow>
   phone_setter self v = (Some (Exception ''Phone number not 10 digits long''), self)"
  by (simp add: phone_setter_filter)

theorem phone_setter_rejects_witness:
  "length (filter (\<lambda>c. c \<noteq> CHR '' '') (filter (\<lambda>c. c \<noteq> CHR ''-'') ''555-123-555'')) \<noteq> 10 \<and>
   phone_setter gary ''555-123-555'' =
     (Some (Exception ''Phone number not 10 digits long''), gary) \<and>
   phone_priv (snd (phone_setter gary ''555-123-555'')) = Some ''5551235555''"
  using phone_setter_rejects [of "''555-123-555''" gary] by (simp add: gary_def)

subsection \<open>The getter of phone\<close>

lemma phone_of_ten:
  "phone_priv p = Some [d0, d1, d2, d3, d4, d5, d6, d7, d8, d9] \<Longrightarrow>
   phone p = Inr [d0, d1, d2, CHR ''-'', d3, d4, d5, CHR ''-'', d6, d7, d8, d9]"
  by (simp add: phone_def slice_def)

lemma phone_stored_only:
  "phone_priv a = phone_priv b \<Longrightarrow> phone a = phone b"
  by (simp add: phone_def)

text \<open>
  C3. For every stored value of 10 characters the getter returns the characters 0 to 2, a
  hyphen, the characters 3 to 5, a hyphen, and the characters 6 to 9.
\<close>

theorem phone_getter_format:
  assumes "phone_priv p = Some num" and "length num = 10"
  shows "phone p = Inr (map ((!) num) [0, 1, 2] @ ''-'' @ map ((!) num) [3, 4, 5] @ ''-''
                          @ map ((!) num) [6, 7, 8, 9])"
proof -
  from ten_chars [OF assms(2)] obtain d0 d1 d2 d3 d4 d5 d6 d7 d8 d9
    where num: "num = [d0, d1, d2, d3, d4, d5, d6, d7, d8, d9]" by blast
  have "phone p = Inr [d0, d1, d2, CHR ''-'', d3, d4, d5, CHR ''-'', d6, d7, d8, d9]"
    using assms(1) num by (simp add: phone_of_ten)
  then show ?thesis by (simp add: num)
qed

theorem phone_getter_format_witness:
  "phone_priv gary = Some ''5551235555'' \<and> length ''5551235555'' = 10 \<and>
   phone gary = Inr ''555-123-5555''"
proof -
  have a: "phone_priv gary = Some ''5551235555''" by (simp add: gary_def)
  have b: "length ''5551235555'' = 10" by simp
  show ?thesis using a b phone_getter_format [OF a b] by simp
qed

text \<open>
  C10. For every Person with no stored phone value, reading \<open>phone\<close> raises an error: the
  getter slices the stored value without testing that it is there.
\<close>

theorem phone_getter_unset:
  "phone_priv p = None \<Longrightarrow> phone p = Inl TypeError"
  by (simp add: phone_def)

theorem phone_getter_unset_witness:
  "phone_priv tom = None \<and> phone tom = Inl TypeError"
  using phone_getter_unset [of tom] by (simp add: tom_def)

subsection \<open>Setter and getter together\<close>

lemma round_trip_general:
  assumes "fst (phone_setter p x) = None"
    and "filter (\<lambda>c. c \<notin> {CHR ''-'', CHR '' ''}) x = filter (\<lambda>c. c \<notin> {CHR ''-'', CHR '' ''}) y"
  shows "fst (phone_setter q y) = None \<and>
         phone_priv (snd (phone_setter p x)) = phone_priv (snd (phone_setter q y)) \<and>
         phone (snd (phone_setter p x)) = phone (snd (phone_setter q y))"
proof -
  let ?f = "\<lambda>v. filter (\<lambda>c. c \<noteq> CHR '' '') (filter (\<lambda>c. c \<noteq> CHR ''-'') v)"
  have e: "?f x = ?f y" using assms(2) by (simp only: filter_seps)
  have lx: "length (?f x) = 10"
    using assms(1) by (simp add: phone_setter_filter split: if_splits)
  then have ly: "length (?f y) = 10" using e by simp
  have sx: "phone_setter p x = (None, p\<lparr>phone_priv := Some (?f x)\<rparr>)"
    using lx by (simp add: phone_setter_filter)
  have sy: "phone_setter q y = (None, q\<lparr>phone_priv := Some (?f y)\<rparr>)"
    using ly by (simp add: phone_setter_filter)
  have st: "phone_priv (snd (phone_setter p x)) = phone_priv (snd (phone_setter q y))"
    using sx sy e by simp
  from st phone_stored_only [OF st] sy show ?thesis by simp
qed

lemma round_trip_instance:
  "v \<in> {''555-555-5555'', ''555 555 5555'', ''5555555555''} \<Longrightarrow>
   fst (phone_setter p v) = None \<and>
   phone_priv (snd (phone_setter p v)) = Some ''5555555555'' \<and>
   phone (snd (phone_setter p v)) = Inr ''555-555-5555''"
  by (auto simp: phone_setter_filter phone_def slice_def)

text \<open>
  C4. Two input strings with the same characters apart from hyphens and spaces, one of
  them accepted by the setter: the other is accepted too, both store the same value, and
  the getter returns the same display string after either. The strings "555-555-5555",
  "555 555 5555" and "5555555555" all store "5555555555" and display as "555-555-5555".
\<close>

theorem phone_round_trip:
  "(fst (phone_setter p x) = None \<and>
    filter (\<lambda>c. c \<notin> {CHR ''-'', CHR '' ''}) x = filter (\<lambda>c. c \<notin> {CHR ''-'', CHR '' ''}) y \<longrightarrow>
      fst (phone_setter q y) = None \<and>
      phone_priv (snd (phone_setter p x)) = phone_priv (snd (phone_setter q y)) \<and>
      phone (snd (phone_setter p x)) = phone (snd (phone_setter q y))) \<and>
   (\<forall>v \<in> {''555-555-5555'', ''555 555 5555'', ''5555555555''}.
      fst (phone_setter p v) = None \<and>
      phone_priv (snd (phone_setter p v)) = Some ''5555555555'' \<and>
      phone (snd (phone_setter p v)) = Inr ''555-555-5555'')"
proof (rule conjI)
  show "fst (phone_setter p x) = None \<and>
    filter (\<lambda>c. c \<notin> {CHR ''-'', CHR '' ''}) x = filter (\<lambda>c. c \<notin> {CHR ''-'', CHR '' ''}) y \<longrightarrow>
      fst (phone_setter q y) = None \<and>
      phone_priv (snd (phone_setter p x)) = phone_priv (snd (phone_setter q y)) \<and>
      phone (snd (phone_setter p x)) = phone (snd (phone_setter q y))"
  proof (rule impI, elim conjE)
    assume a: "fst (phone_setter p x) = None"
      and b: "filter (\<lambda>c. c \<notin> {CHR ''-'', CHR '' ''}) x =
              filter (\<lambda>c. c \<notin> {CHR ''-'', CHR '' ''}) y"
    show "fst (phone_setter q y) = None \<and>
      phone_priv (snd (phone_setter p x)) = phone_priv (snd (phone_setter q y)) \<and>
      phone (snd (phone_setter p x)) = phone (snd (phone_setter q y))"
      by (rule round_trip_general [OF a b])
  qed
next
  show "\<forall>v \<in> {''555-555-5555'', ''555 555 5555'', ''5555555555''}.
      fst (phone_setter p v) = None \<and>
      phone_priv (snd (phone_setter p v)) = Some ''5555555555'' \<and>
      phone (snd (phone_setter p v)) = Inr ''555-555-5555''"
    by (rule ballI) (rule round_trip_instance)
qed

theorem phone_round_trip_witness:
  "fst (phone_setter tom ''555-243-9988'') = None \<and>
   filter (\<lambda>c. c \<notin> {CHR ''-'', CHR '' ''}) ''555-243-9988'' =
     filter (\<lambda>c. c \<notin> {CHR ''-'', CHR '' ''}) ''555 243 9988'' \<and>
   fst (phone_setter gary ''555 243 9988'') = None \<and>
   phone_priv (snd (phone_setter tom ''555-243-9988'')) =
     phone_priv (snd (phone_setter gary ''555 243 9988'')) \<and>
   phone (snd (phone_setter tom ''555-243-9988'')) =
     phone (snd (phone_setter gary ''555 243 9988'')) \<and>
   ''555 555 5555'' \<in> {''555-555-5555'', ''555 555 5555'', ''5555555555''} \<and>
   phone (snd (phone_setter tom ''555 555 5555'')) = Inr ''555-555-5555''"
proof -
  have a: "fst (phone_setter tom ''555-243-9988'') = None"
    by (simp add: phone_setter_filter)
  have b: "filter (\<lambda>c. c \<notin> {CHR ''-'', CHR '' ''}) ''555-243-9988'' =
           filter (\<lambda>c. c \<notin> {CHR ''-'', CHR '' ''}) ''555 243 9988''"
    by simp
  have c: "''555 555 5555'' \<in> {''555-555-5555'', ''555 555 5555'', ''5555555555''}"
    by simp
  note t = phone_round_trip [of tom "''555-243-9988''" "''555 243 9988''" gary]
  note g = mp [OF conjunct1 [OF t] conjI [OF a b]]
  note i = bspec [OF conjunct2 [OF t] c]
  note i3 = conjunct2 [OF conjunct2 [OF i]]
  show ?thesis
    by (rule conjI [OF a conjI [OF b conjI [OF conjunct1 [OF g] conjI [OF conjunct1 [OF conjunct2 [OF g]]
          conjI [OF conjunct2 [OF conjunct2 [OF g]] conjI [OF c i3]]]]]])
qed

subsection \<open>The invariant of the stored value\<close>

lemma phone_setter_inv: "phone_inv p \<Longrightarrow> phone_inv (snd (phone_setter p v))"
  by (simp add: phone_setter_filter phone_inv_def)

text \<open>
  C5. The stored phone value, when present, has exactly 10 characters and neither a hyphen
  nor a space. A new Person has no stored value; \<open>phone_setter\<close> is the only function
  that writes the field, and any sequence of assignments to \<open>phone\<close>, accepted or
  rejected, keeps the invariant.
\<close>

theorem phone_inv_setter_calls:
  "phone_inv p \<Longrightarrow> phone_inv (setter_calls p vs)"
  by (induction vs arbitrary: p) (simp_all add: phone_setter_inv)

theorem phone_inv_setter_calls_witness:
  "phone_inv tom \<and>
   phone_priv (setter_calls tom [''555-555'', ''555 243-9988'', ''1'']) = Some ''5552439988'' \<and>
   phone_inv (setter_calls tom [''555-555'', ''555 243-9988'', ''1''])"
proof -
  have a: "phone_inv tom" by (simp add: phone_inv_def tom_def)
  have b: "phone_priv (setter_calls tom [''555-555'', ''555 243-9988'', ''1'']) =
           Some ''5552439988''"
    by (simp add: phone_setter_filter)
  show ?thesis
    using a b phone_inv_setter_calls [OF a, of "[''555-555'', ''555 243-9988'', ''1'']"]
    by simp
qed

subsection \<open>full\_name\<close>

text \<open>
  C6. For every Person the full name is the first name, one space, and the last name; a
  Person with first name Tom and last name Smith has the full name "Tom Smith".
\<close>

theorem full_name_concat:
  "full_name p = first_name p @ [CHR '' ''] @ last_name p \<and>
   full_name (p\<lparr>first_name := ''Tom'', last_name := ''Smith''\<rparr>) = ''Tom Smith''"
  by (simp add: full_name_def)

subsection \<open>pets and has\_pet\<close>

text \<open>
  The loop of \<open>has_pet\<close>, run over the rows of a person, returns None when no row holds
  the pet, and the years of the row that holds it when there is one such row.
\<close>

lemma has_pet_loop_no_row:
  "\<forall>a \<in> set rows. oid (pet a) \<noteq> oid q \<Longrightarrow> has_pet_loop rows q = None"
  by (induction rows) simp_all

lemma has_pet_loop_row:
  "a \<in> set rows \<Longrightarrow> oid (pet a) = oid q \<Longrightarrow>
   \<forall>b \<in> set rows. oid (pet b) = oid q \<longrightarrow> years b = years a \<Longrightarrow>
   has_pet_loop rows q = years a"
proof (induction rows)
  case Nil
  then show ?case by simp
next
  case (Cons r rows)
  show ?case
  proof (cases "oid (pet r) = oid q")
    case True
    with Cons.prems(3) show ?thesis by simp
  next
    case False
    with Cons.prems(1,2) have "a \<in> set rows" by auto
    moreover from Cons.prems(3) have "\<forall>b \<in> set rows. oid (pet b) = oid q \<longrightarrow> years b = years a"
      by simp
    ultimately have "has_pet_loop rows q = years a"
      using Cons.IH Cons.prems(2) by blast
    with False show ?thesis by simp
  qed
qed



text \<open>
  C9. The method \<open>has_pet\<close> is to return the years of the row linking the person and
  the pet, and None when there is no such row. It reads \<open>self.pet_assocs\<close>:
  for Gary it raises AttributeError both for Duke, whom a row of three years links to
  him, and for Sonya, whom no row links to him; the loop over \<open>pet_associations\<close>
  returns 3 and None.
\<close>

theorem has_pet_raises:
  "has_pet gary duke = Inl AttributeError \<and>
   has_pet_loop (pet_associations gary) duke = Some 3 \<and>
   has_pet gary sonya = Inl AttributeError \<and>
   has_pet_loop (pet_associations gary) sonya = None"
  by (simp add: has_pet_def assoc_attr_def gary_def duke_def sonya_def)

end
